theory Spec2Isabelle
  imports Main
begin

section \<open>Data model of \<open>EmailPasswordDemo.tsx\<close>\<close>

text \<open>
  The component keeps eight pieces of React state. \<open>type Mode = "signup" | "signin"\<close> is
  declared, but the state itself is \<open>useState("signup")\<close> with no annotation, so the
  stored form mode is a plain string; the reset mode is \<open>useState<ResetMode>\<close> and is an
  enumeration. Text is a list of characters, one element per code unit of the JavaScript
  string: the code only compares strings and takes \<open>.length\<close>.
\<close>

datatype Mode = Signup | Signin

fun Mode_str :: "Mode \<Rightarrow> string" where
  "Mode_str Signup = ''signup''"
| "Mode_str Signin = ''signin''"

datatype ResetMode = RM_none | RM_request | RM_update

text \<open>The fields of the SDK's \<open>User\<close> that the component renders.\<close>

record User =
  user_id :: string
  user_email :: "string option"
  last_sign_in_at :: "string option"

record Session =
  user :: User

record AuthError =
  message :: string

record UiState =
  mode :: string
  email :: string
  password :: string
  status :: string
  resetMode :: ResetMode
  newPassword :: string
  confirmPassword :: string
  currentUser :: "User option"

section \<open>The SDK boundary\<close>

text \<open>
  Every call the component makes on \<open>supabase.auth\<close>, with the arguments it passes. An
  awaited call either resolves, and the handler reads the \<open>error\<close> field of the result
  (\<open>null\<close> is \<open>None\<close>), or its promise rejects. The SDK is a parameter \<open>sdk\<close> giving
  that outcome, and each handler returns the calls it issued next to the new state.
  \<open>onAuthStateChange\<close> answers with \<open>data\<close>, which the code names \<open>listener\<close> and guards
  with \<open>?.\<close>.
\<close>

datatype SdkCall =
    SignUp string string string
  | SignInWithPassword string string
  | ResetPasswordForEmail string string
  | UpdateUser string
  | SignOut
  | OnAuthStateChange
  | Unsubscribe nat

datatype SdkOutcome = Resolved "AuthError option" | Rejected

type_synonym Sdk = "SdkCall \<Rightarrow> SdkOutcome"

record Listener =
  subscription :: nat

section \<open>Detecting a recovery redirect\<close>

text \<open>
  \<open>window\<close> is absent while rendering on the server (\<open>typeof window === "undefined"\<close>):
  it is an optional location. \<open>URLSearchParams\<close> belongs to the browser and is a
  parameter, the list of name-value pairs it parses from a string; \<open>.get\<close> is the first
  value under a name, \<open>.has\<close> asks whether there is one, \<open>.delete\<close> drops every pair of
  that name.
\<close>

record Location =
  pathname :: string
  search :: string
  hash :: string

type_synonym Params = "(string \<times> string) list"

definition params_get :: "Params \<Rightarrow> string \<Rightarrow> string option" where
  "params_get ps name = map_of ps name"

definition params_has :: "Params \<Rightarrow> string \<Rightarrow> bool" where
  "params_has ps name = (params_get ps name \<noteq> None)"

definition params_delete :: "Params \<Rightarrow> string \<Rightarrow> Params" where
  "params_delete ps name = filter (\<lambda>p. fst p \<noteq> name) ps"

text \<open>\<open>s.replace(/^c/, "")\<close>: one leading \<open>c\<close> is removed.\<close>

fun strip_leading :: "char \<Rightarrow> string \<Rightarrow> string" where
  "strip_leading c [] = []"
| "strip_leading c (x # xs) = (if x = c then xs else x # xs)"

definition hasRecoveryParams :: "(string \<Rightarrow> Params) \<Rightarrow> Location option \<Rightarrow> bool" where
  "hasRecoveryParams URLSearchParams window =
     (case window of
        None \<Rightarrow> False
      | Some location \<Rightarrow>
          (let hashParams = URLSearchParams (strip_leading CHR ''#'' (hash location)) in
           if params_get hashParams ''type'' = Some ''recovery'' then True
           else
             (let searchParams = URLSearchParams (search location) in
              params_get searchParams ''password-reset'' = Some ''true'')))"

text \<open>
  The reading of the claim about initialisation, in the spec's words: the page URL
  indicates a recovery redirect when the hash parameter \<open>type\<close> equals \<open>recovery\<close> or the
  query parameter \<open>password-reset\<close> equals \<open>true\<close>. Without a window there is no page URL.
\<close>

definition spec_recovery_redirect :: "(string \<Rightarrow> Params) \<Rightarrow> Location option \<Rightarrow> bool" where
  "spec_recovery_redirect URLSearchParams window =
     (case window of
        None \<Rightarrow> False
      | Some location \<Rightarrow>
          params_get (URLSearchParams (strip_leading CHR ''#'' (hash location))) ''type''
            = Some ''recovery''
          \<or> params_get (URLSearchParams (search location)) ''password-reset'' = Some ''true'')"

text \<open>
  A parser to run the definitions on concrete URLs: the browser's form-urlencoded parsing
  of a query string (a leading \<open>?\<close> dropped, pieces separated by \<open>&\<close>, empty pieces
  skipped, each piece cut at its first \<open>=\<close>, \<open>+\<close> read as a space, \<open>%hh\<close> as a byte).
\<close>

fun split_on :: "char \<Rightarrow> string \<Rightarrow> string list" where
  "split_on c [] = [[]]"
| "split_on c (x # xs) =
     (if x = c then [] # split_on c xs
      else (case split_on c xs of [] \<Rightarrow> [[x]] | y # ys \<Rightarrow> (x # y) # ys))"

definition hex_value :: "char \<Rightarrow> nat option" where
  "hex_value c =
     (let n = (of_char c :: nat) in
      if 48 \<le> n \<and> n \<le> 57 then Some (n - 48)
      else if 65 \<le> n \<and> n \<le> 70 then Some (n - 55)
      else if 97 \<le> n \<and> n \<le> 102 then Some (n - 87)
      else None)"

fun percent_decode :: "string \<Rightarrow> string" where
  "percent_decode [] = []"
| "percent_decode [c] = [c]"
| "percent_decode [c, a] = [c, a]"
| "percent_decode (c # a # b # r) =
     (if c = CHR ''%'' then
        (case (hex_value a, hex_value b) of
           (Some h, Some l) \<Rightarrow> char_of (16 * h + l) # percent_decode r
         | _ \<Rightarrow> c # percent_decode (a # b # r))
      else c # percent_decode (a # b # r))"

definition plus_to_space :: "string \<Rightarrow> string" where
  "plus_to_space s = map (\<lambda>c. if c = CHR ''+'' then CHR '' '' else c) s"

definition parse_pair :: "string \<Rightarrow> string \<times> string" where
  "parse_pair piece =
     (let name = takeWhile (\<lambda>c. c \<noteq> CHR ''='') piece;
          rest = dropWhile (\<lambda>c. c \<noteq> CHR ''='') piece
      in (percent_decode (plus_to_space name), percent_decode (plus_to_space (tl rest))))"

definition parse_urlencoded :: "string \<Rightarrow> Params" where
  "parse_urlencoded init =
     map parse_pair
       (filter (\<lambda>piece. piece \<noteq> []) (split_on CHR ''&'' (strip_leading CHR ''?'' init)))"

section \<open>Initial state\<close>

definition recovery_prompt :: string where
  "recovery_prompt = ''Enter a new password to finish resetting your account.''"

definition initialState :: "(string \<Rightarrow> Params) \<Rightarrow> Location option \<Rightarrow> User option \<Rightarrow> UiState" where
  "initialState URLSearchParams window u =
     \<lparr> mode = ''signup'',
       email = '''',
       password = '''',
       status = (if hasRecoveryParams URLSearchParams window then recovery_prompt else ''''),
       resetMode = (if hasRecoveryParams URLSearchParams window then RM_update else RM_none),
       newPassword = '''',
       confirmPassword = '''',
       currentUser = u \<rparr>"

section \<open>Handlers\<close>

text \<open>
  Each handler is one step on the state: it reads the state of the render it closes over,
  the SDK answers through \<open>sdk\<close>, and the setters after the \<open>await\<close> give the new state.
  No handler has a \<open>try\<close>: when the awaited promise rejects, the \<open>await\<close> throws, the rest
  of the handler does not run, and the state stays as it was.
\<close>

definition handleSignOut :: "Sdk \<Rightarrow> UiState \<Rightarrow> SdkCall list \<times> UiState" where
  "handleSignOut sdk s =
     (case sdk SignOut of
        Rejected \<Rightarrow> ([SignOut], s)
      | Resolved ignored \<Rightarrow>
          ([SignOut],
           s\<lparr> currentUser := None,
              status := ''Signed out successfully'',
              resetMode := RM_none,
              newPassword := '''',
              confirmPassword := '''' \<rparr>))"

text \<open>The callback given to \<open>onAuthStateChange\<close>; the event is the SDK's event name.\<close>

definition authStateListener :: "string \<Rightarrow> Session option \<Rightarrow> UiState \<Rightarrow> UiState" where
  "authStateListener event session s =
     (let s1 = s\<lparr> currentUser := (case session of None \<Rightarrow> None | Some se \<Rightarrow> Some (user se)) \<rparr> in
      if event = ''PASSWORD_RECOVERY''
      then s1\<lparr> resetMode := RM_update, status := recovery_prompt \<rparr>
      else s1)"

text \<open>
  The first effect subscribes and hands React its cleanup: the calls made when the effect
  runs, and the calls its cleanup makes.
\<close>

definition subscribeEffect :: "Listener option \<Rightarrow> SdkCall list \<times> SdkCall list" where
  "subscribeEffect listener =
     ([OnAuthStateChange],
      (case listener of None \<Rightarrow> [] | Some l \<Rightarrow> [Unsubscribe (subscription l)]))"

text \<open>
  The second effect, on the state. It also rewrites the address bar with
  \<open>history.replaceState\<close>; \<open>recoveryEffectUrl\<close> is the URL it writes, \<open>toString\<close> the
  browser's serialiser of the parameters.
\<close>

definition recoveryEffect :: "(string \<Rightarrow> Params) \<Rightarrow> Location option \<Rightarrow> UiState \<Rightarrow> UiState" where
  "recoveryEffect URLSearchParams window s =
     (if \<not> hasRecoveryParams URLSearchParams window \<or> window = None then s
      else s\<lparr> resetMode := RM_update, status := recovery_prompt \<rparr>)"

definition recoveryEffectUrl ::
    "(string \<Rightarrow> Params) \<Rightarrow> (Params \<Rightarrow> string) \<Rightarrow> Location \<Rightarrow> string" where
  "recoveryEffectUrl URLSearchParams toString location =
     (let searchParams = URLSearchParams (strip_leading CHR ''?'' (search location));
          searchParams' =
            (if params_has searchParams ''password-reset''
             then params_delete searchParams ''password-reset'' else searchParams)
      in pathname location @
         (if toString searchParams' \<noteq> [] then ''?'' @ toString searchParams' else ''''))"

definition handleSubmit :: "Sdk \<Rightarrow> string \<Rightarrow> UiState \<Rightarrow> SdkCall list \<times> UiState" where
  "handleSubmit sdk origin s =
     (if mode s = ''signup'' then
        (let call = SignUp (email s) (password s) (origin @ ''/welcome'') in
         case sdk call of
           Rejected \<Rightarrow> ([call], s)
         | Resolved (Some error) \<Rightarrow> ([call], s\<lparr> status := message error \<rparr>)
         | Resolved None \<Rightarrow>
             ([call], s\<lparr> status := ''Check your inbox to confirm the new account.'' \<rparr>))
      else
        (let call = SignInWithPassword (email s) (password s) in
         case sdk call of
           Rejected \<Rightarrow> ([call], s)
         | Resolved (Some error) \<Rightarrow> ([call], s\<lparr> status := message error \<rparr>)
         | Resolved None \<Rightarrow> ([call], s\<lparr> status := ''Signed in successfully'' \<rparr>)))"

definition handlePasswordResetRequest :: "Sdk \<Rightarrow> string \<Rightarrow> UiState \<Rightarrow> SdkCall list \<times> UiState" where
  "handlePasswordResetRequest sdk origin s =
     (let call = ResetPasswordForEmail (email s) (origin @ ''/email-password?password-reset=true'') in
      case sdk call of
        Rejected \<Rightarrow> ([call], s)
      | Resolved (Some error) \<Rightarrow> ([call], s\<lparr> status := message error \<rparr>)
      | Resolved None \<Rightarrow>
          ([call],
           s\<lparr> status := ''Password reset email sent. Check your inbox.'',
              resetMode := RM_none,
              mode := ''signin'' \<rparr>))"

definition handlePasswordUpdate :: "Sdk \<Rightarrow> UiState \<Rightarrow> SdkCall list \<times> UiState" where
  "handlePasswordUpdate sdk s =
     (if length (newPassword s) < 6 then
        ([], s\<lparr> status := ''New password must be at least 6 characters.'' \<rparr>)
      else if newPassword s \<noteq> confirmPassword s then
        ([], s\<lparr> status := ''Passwords do not match.'' \<rparr>)
      else
        (let call = UpdateUser (newPassword s) in
         case sdk call of
           Rejected \<Rightarrow> ([call], s)
         | Resolved (Some error) \<Rightarrow> ([call], s\<lparr> status := message error \<rparr>)
         | Resolved None \<Rightarrow>
             ([call],
              s\<lparr> status := ''Password updated. You're now signed in.'',
                 resetMode := RM_none,
                 newPassword := '''',
                 confirmPassword := '''' \<rparr>)))"

definition startPasswordReset :: "UiState \<Rightarrow> UiState" where
  "startPasswordReset s =
     s\<lparr> resetMode := RM_request, status := '''', mode := ''signin'', password := '''' \<rparr>"

definition cancelPasswordReset :: "UiState \<Rightarrow> UiState" where
  "cancelPasswordReset s =
     s\<lparr> resetMode := RM_none,
        mode := ''signin'',
        status := '''',
        newPassword := '''',
        confirmPassword := '''',
        password := '''' \<rparr>"

definition isResetRequest :: "UiState \<Rightarrow> bool" where
  "isResetRequest s = (resetMode s = RM_request)"

definition isPasswordUpdate :: "UiState \<Rightarrow> bool" where
  "isPasswordUpdate s = (resetMode s = RM_update)"

definition handleFormSubmit :: "Sdk \<Rightarrow> string \<Rightarrow> UiState \<Rightarrow> SdkCall list \<times> UiState" where
  "handleFormSubmit sdk origin s =
     (if isResetRequest s then handlePasswordResetRequest sdk origin s
      else if isPasswordUpdate s then handlePasswordUpdate sdk s
      else handleSubmit sdk origin s)"

section \<open>The rendered controls\<close>

text \<open>
  What the user and the SDK can do to the component: the controls of the JSX with their
  inline handlers, and the delivery of an auth-state-change event. A control acts only
  while it is rendered; \<open>enabled\<close> is the condition the JSX renders it under.
\<close>

datatype Event =
    ClickMode Mode
  | ChangeEmail string
  | ChangePassword string
  | ChangeNewPassword string
  | ChangeConfirmPassword string
  | SubmitForm
  | ClickForgotPassword
  | ClickBackToSignIn
  | ClickSignOut
  | AuthStateChange string "Session option"

definition formShown :: "UiState \<Rightarrow> bool" where
  "formShown s = (currentUser s = None \<or> resetMode s \<noteq> RM_none)"

fun enabled :: "Event \<Rightarrow> UiState \<Rightarrow> bool" where
  "enabled (ClickMode option) s = (formShown s \<and> resetMode s = RM_none)"
| "enabled (ChangeEmail v) s = (formShown s \<and> resetMode s \<noteq> RM_update)"
| "enabled (ChangePassword v) s = (formShown s \<and> resetMode s = RM_none)"
| "enabled (ChangeNewPassword v) s = (formShown s \<and> isPasswordUpdate s)"
| "enabled (ChangeConfirmPassword v) s = (formShown s \<and> isPasswordUpdate s)"
| "enabled SubmitForm s = formShown s"
| "enabled ClickForgotPassword s = (formShown s \<and> resetMode s = RM_none \<and> mode s = ''signin'')"
| "enabled ClickBackToSignIn s = (formShown s \<and> resetMode s \<noteq> RM_none)"
| "enabled ClickSignOut s = (currentUser s \<noteq> None)"
| "enabled (AuthStateChange event session) s = True"

fun step :: "Sdk \<Rightarrow> string \<Rightarrow> Event \<Rightarrow> UiState \<Rightarrow> SdkCall list \<times> UiState" where
  "step sdk origin (ClickMode option) s = ([], s\<lparr> mode := Mode_str option, status := '''' \<rparr>)"
| "step sdk origin (ChangeEmail v) s = ([], s\<lparr> email := v \<rparr>)"
| "step sdk origin (ChangePassword v) s = ([], s\<lparr> password := v \<rparr>)"
| "step sdk origin (ChangeNewPassword v) s = ([], s\<lparr> newPassword := v \<rparr>)"
| "step sdk origin (ChangeConfirmPassword v) s = ([], s\<lparr> confirmPassword := v \<rparr>)"
| "step sdk origin SubmitForm s = handleFormSubmit sdk origin s"
| "step sdk origin ClickForgotPassword s = ([], startPasswordReset s)"
| "step sdk origin ClickBackToSignIn s = ([], cancelPasswordReset s)"
| "step sdk origin ClickSignOut s = handleSignOut sdk s"
| "step sdk origin (AuthStateChange event session) s = ([], authStateListener event session s)"

text \<open>
  A run of the mounted component: the events in order, each with the SDK's behaviour at
  that moment; an event whose control is not rendered does not happen.
\<close>

fun run :: "string \<Rightarrow> (Sdk \<times> Event) list \<Rightarrow> UiState \<Rightarrow> SdkCall list \<times> UiState" where
  "run origin [] s = ([], s)"
| "run origin ((sdk, ev) # rest) s =
     (if enabled ev s then
        (let r1 = step sdk origin ev s; r2 = run origin rest (snd r1)
         in (fst r1 @ fst r2, snd r2))
      else run origin rest s)"

text \<open>
  The life of the component: the initial state, the two effects at mount, the events, and
  the cleanup of the subscription effect at teardown.
\<close>

definition lifetime ::
    "(string \<Rightarrow> Params) \<Rightarrow> Location option \<Rightarrow> User option \<Rightarrow> Listener option \<Rightarrow> string \<Rightarrow>
     (Sdk \<times> Event) list \<Rightarrow> SdkCall list \<times> UiState" where
  "lifetime URLSearchParams window u listener origin evs =
     (let mounted = recoveryEffect URLSearchParams window (initialState URLSearchParams window u);
          r = run origin evs mounted
      in (fst (subscribeEffect listener) @ fst r @ snd (subscribeEffect listener), snd r))"

inductive reachable :: "(string \<Rightarrow> Params) \<Rightarrow> Location option \<Rightarrow> User option \<Rightarrow> UiState \<Rightarrow> bool"
  for URLSearchParams :: "string \<Rightarrow> Params" and window :: "Location option" and u :: "User option"
where
  reachable_init: "reachable URLSearchParams window u (initialState URLSearchParams window u)"
| reachable_mounted:
    "reachable URLSearchParams window u
       (recoveryEffect URLSearchParams window (initialState URLSearchParams window u))"
| reachable_step:
    "reachable URLSearchParams window u s \<Longrightarrow> enabled ev s \<Longrightarrow>
     reachable URLSearchParams window u (snd (step sdk origin ev s))"

section \<open>The spec's readings and concrete inputs\<close>

text \<open>
  The reset-mode toggle as the spec words it: a step stays where it is or moves along one
  of the two cycles none \<open>\<rightarrow>\<close> request \<open>\<rightarrow>\<close> none and none \<open>\<rightarrow>\<close> update \<open>\<rightarrow>\<close> none.
\<close>

definition spec_reset_step :: "ResetMode \<Rightarrow> ResetMode \<Rightarrow> bool" where
  "spec_reset_step a b =
     (a = b \<or> (a = RM_none \<and> b = RM_request) \<or> (a = RM_request \<and> b = RM_none)
      \<or> (a = RM_none \<and> b = RM_update) \<or> (a = RM_update \<and> b = RM_none))"

text \<open>The four SDK operations the spec lists.\<close>

definition spec_four_operations :: "SdkCall \<Rightarrow> bool" where
  "spec_four_operations c =
     (case c of
        SignUp e p r \<Rightarrow> True
      | SignInWithPassword e p \<Rightarrow> True
      | ResetPasswordForEmail e r \<Rightarrow> True
      | UpdateUser p \<Rightarrow> True
      | _ \<Rightarrow> False)"

text \<open>The two enumerations of the data model, as memberships of the stored values.\<close>

definition spec_modes_valid :: "UiState \<Rightarrow> bool" where
  "spec_modes_valid s =
     ((mode s = ''signup'' \<or> mode s = ''signin'')
      \<and> (resetMode s = RM_none \<or> resetMode s = RM_request \<or> resetMode s = RM_update))"

definition isUnsubscribe :: "SdkCall \<Rightarrow> bool" where
  "isUnsubscribe c = (case c of Unsubscribe n \<Rightarrow> True | _ \<Rightarrow> False)"

text \<open>
  What it is for an operation to have completed, in terms of the SDK's outcome: the
  sign-out call answered (its promise did not reject); the reset request was answered
  without an error; the password update passed both checks of the form and was answered
  without an error.
\<close>

definition sign_out_answered :: "Sdk \<Rightarrow> bool" where
  "sign_out_answered sdk = (sdk SignOut \<noteq> Rejected)"

definition reset_request_completed :: "Sdk \<Rightarrow> string \<Rightarrow> UiState \<Rightarrow> bool" where
  "reset_request_completed sdk origin s =
     (sdk (ResetPasswordForEmail (email s) (origin @ ''/email-password?password-reset=true''))
        = Resolved None)"

definition password_update_completed :: "Sdk \<Rightarrow> UiState \<Rightarrow> bool" where
  "password_update_completed sdk s =
     (6 \<le> length (newPassword s) \<and> newPassword s = confirmPassword s
      \<and> sdk (UpdateUser (newPassword s)) = Resolved None)"

text \<open>Three SDKs: one that answers every call without error, one with an error, one that rejects.\<close>

definition sdk_ok :: Sdk where
  "sdk_ok call = Resolved None"

definition sdk_failing :: "string \<Rightarrow> Sdk" where
  "sdk_failing msg call = Resolved (Some \<lparr> message = msg \<rparr>)"

definition sdk_rejecting :: Sdk where
  "sdk_rejecting call = Rejected"

definition demo_origin :: string where
  "demo_origin = ''http://localhost:3000''"

definition demo_user :: User where
  "demo_user = \<lparr> user_id = ''u1'', user_email = Some ''a@b.c'', last_sign_in_at = None \<rparr>"

definition demo_session :: Session where
  "demo_session = \<lparr> user = demo_user \<rparr>"

definition recovery_hash_location :: Location where
  "recovery_hash_location =
     \<lparr> pathname = ''/email-password'', search = [],
       hash = ''#access_token=abc&type=recovery'' \<rparr>"

definition recovery_query_location :: Location where
  "recovery_query_location =
     \<lparr> pathname = ''/email-password'', search = ''?password-reset=true'', hash = [] \<rparr>"

definition plain_location :: Location where
  "plain_location = \<lparr> pathname = ''/email-password'', search = [], hash = [] \<rparr>"

text \<open>
  States of a page opened in a browser at \<open>/email-password\<close> with nobody signed in: with
  an email address and a password typed; after choosing "Sign in"; after choosing "Sign in"
  and typing both; after typing the email address, choosing "Sign in" and then "Forgot
  password?"; and the last with a session event that signs the user in.
\<close>

definition typed_state :: UiState where
  "typed_state =
     snd (run demo_origin [(sdk_ok, ChangeEmail ''a@b.c''), (sdk_ok, ChangePassword ''secret1'')]
            (initialState parse_urlencoded (Some plain_location) None))"

definition signin_state :: UiState where
  "signin_state =
     snd (run demo_origin [(sdk_ok, ClickMode Signin)]
            (initialState parse_urlencoded (Some plain_location) None))"

definition signin_typed_state :: UiState where
  "signin_typed_state =
     snd (run demo_origin
            [(sdk_ok, ClickMode Signin), (sdk_ok, ChangeEmail ''a@b.c''),
             (sdk_ok, ChangePassword ''secret1'')]
            (initialState parse_urlencoded (Some plain_location) None))"

definition forgot_state :: UiState where
  "forgot_state =
     snd (run demo_origin
            [(sdk_ok, ChangeEmail ''a@b.c''), (sdk_ok, ClickMode Signin),
             (sdk_ok, ClickForgotPassword)]
            (initialState parse_urlencoded (Some plain_location) None))"

definition forgot_signed_in_state :: UiState where
  "forgot_signed_in_state =
     snd (run demo_origin
            [(sdk_ok, ChangeEmail ''a@b.c''), (sdk_ok, ClickMode Signin),
             (sdk_ok, ClickForgotPassword),
             (sdk_ok, AuthStateChange ''SIGNED_IN'' (Some demo_session))]
            (initialState parse_urlencoded (Some plain_location) None))"

text \<open>The page opened by a signed-in user, and a recovery page with two passwords typed.\<close>

definition signed_in_state :: UiState where
  "signed_in_state = initialState parse_urlencoded (Some plain_location) (Some demo_user)"

definition update_state :: "string \<Rightarrow> string \<Rightarrow> UiState" where
  "update_state new confirm =
     snd (run demo_origin
            [(sdk_ok, ChangeNewPassword new), (sdk_ok, ChangeConfirmPassword confirm)]
            (initialState parse_urlencoded (Some recovery_hash_location) None))"

section \<open>Lemmas on steps and runs\<close>

lemmas handler_defs =
  handleFormSubmit_def handleSubmit_def handlePasswordResetRequest_def handlePasswordUpdate_def
  handleSignOut_def startPasswordReset_def cancelPasswordReset_def authStateListener_def
  isResetRequest_def isPasswordUpdate_def Let_def

lemmas completed_defs =
  sign_out_answered_def reset_request_completed_def password_update_completed_def

lemmas parse_defs =
  hasRecoveryParams_def spec_recovery_redirect_def params_get_def parse_urlencoded_def
  parse_pair_def plus_to_space_def

lemmas demo_defs =
  sdk_ok_def sdk_failing_def sdk_rejecting_def demo_origin_def demo_user_def demo_session_def
  recovery_hash_location_def recovery_query_location_def plain_location_def

lemmas eval_defs =
  demo_defs initialState_def parse_defs formShown_def handler_defs recovery_prompt_def

subsection \<open>The concrete states, evaluated\<close>

lemma typed_state_eq:
  "typed_state =
     \<lparr> mode = ''signup'', email = ''a@b.c'', password = ''secret1'', status = [],
       resetMode = RM_none, newPassword = [], confirmPassword = [], currentUser = None \<rparr>"
  by (simp add: typed_state_def eval_defs)

lemma signin_state_eq:
  "signin_state =
     \<lparr> mode = ''signin'', email = [], password = [], status = [],
       resetMode = RM_none, newPassword = [], confirmPassword = [], currentUser = None \<rparr>"
  by (simp add: signin_state_def eval_defs)

lemma signin_typed_state_eq:
  "signin_typed_state =
     \<lparr> mode = ''signin'', email = ''a@b.c'', password = ''secret1'', status = [],
       resetMode = RM_none, newPassword = [], confirmPassword = [], currentUser = None \<rparr>"
  by (simp add: signin_typed_state_def eval_defs)

lemma forgot_state_eq:
  "forgot_state =
     \<lparr> mode = ''signin'', email = ''a@b.c'', password = [], status = [],
       resetMode = RM_request, newPassword = [], confirmPassword = [], currentUser = None \<rparr>"
  by (simp add: forgot_state_def eval_defs)

lemma forgot_signed_in_state_eq:
  "forgot_signed_in_state =
     \<lparr> mode = ''signin'', email = ''a@b.c'', password = [], status = [],
       resetMode = RM_request, newPassword = [], confirmPassword = [],
       currentUser = Some demo_user \<rparr>"
  by (simp add: forgot_signed_in_state_def eval_defs)

lemma signed_in_state_eq:
  "signed_in_state =
     \<lparr> mode = ''signup'', email = [], password = [], status = [],
       resetMode = RM_none, newPassword = [], confirmPassword = [],
       currentUser = Some demo_user \<rparr>"
  by (simp add: signed_in_state_def eval_defs)

lemma update_state_eq:
  "update_state new confirm =
     \<lparr> mode = ''signup'', email = [], password = [],
       status = ''Enter a new password to finish resetting your account.'',
       resetMode = RM_update, newPassword = new, confirmPassword = confirm,
       currentUser = None \<rparr>"
  by (simp add: update_state_def eval_defs)

lemmas state_eqs =
  typed_state_eq signin_state_eq signin_typed_state_eq forgot_state_eq
  forgot_signed_in_state_eq signed_in_state_eq update_state_eq

subsection \<open>Steps and runs in general\<close>

lemma Mode_str_cases: "Mode_str m = ''signup'' \<or> Mode_str m = ''signin''"
  by (cases m) simp_all

lemma recoveryEffect_initialState:
  "recoveryEffect usp w (initialState usp w u) = initialState usp w u"
  by (simp add: recoveryEffect_def initialState_def)

lemma reachable_run:
  "reachable usp w u s \<Longrightarrow> reachable usp w u (snd (run origin evs s))"
proof (induction evs arbitrary: s)
  case Nil
  then show ?case by simp
next
  case (Cons p evs)
  obtain sdk ev where p: "p = (sdk, ev)" by (cases p)
  show ?case
  proof (cases "enabled ev s")
    case True
    with Cons.prems have "reachable usp w u (snd (step sdk origin ev s))"
      by (rule reachable_step)
    then have "reachable usp w u (snd (run origin evs (snd (step sdk origin ev s))))"
      by (rule Cons.IH)
    with True p show ?thesis by (simp add: Let_def)
  next
    case False
    with Cons p show ?thesis by simp
  qed
qed

lemma step_resetMode:
  "enabled ev s \<Longrightarrow>
     resetMode (snd (step sdk origin ev s)) = resetMode s
   \<or> (resetMode s = RM_none \<and> resetMode (snd (step sdk origin ev s)) = RM_request
        \<and> ev = ClickForgotPassword)
   \<or> (resetMode (snd (step sdk origin ev s)) = RM_none
        \<and> (ev = ClickBackToSignIn
            \<or> (ev = ClickSignOut \<and> sign_out_answered sdk)
            \<or> (ev = SubmitForm \<and> resetMode s = RM_request
                 \<and> reset_request_completed sdk origin s)
            \<or> (ev = SubmitForm \<and> resetMode s = RM_update \<and> password_update_completed sdk s)))
   \<or> (resetMode (snd (step sdk origin ev s)) = RM_update
        \<and> (\<exists>session. ev = AuthStateChange ''PASSWORD_RECOVERY'' session))"
  by (cases ev)
    (auto simp: handler_defs completed_defs formShown_def split: SdkOutcome.splits option.splits)

lemma step_resetMode_of_event:
  "resetMode (snd (step sdk origin ClickForgotPassword s)) = RM_request"
  "resetMode (snd (step sdk origin ClickBackToSignIn s)) = RM_none"
  "sign_out_answered sdk \<Longrightarrow> resetMode (snd (step sdk origin ClickSignOut s)) = RM_none"
  "resetMode s = RM_request \<Longrightarrow> reset_request_completed sdk origin s \<Longrightarrow>
     resetMode (snd (step sdk origin SubmitForm s)) = RM_none"
  "resetMode s = RM_update \<Longrightarrow> password_update_completed sdk s \<Longrightarrow>
     resetMode (snd (step sdk origin SubmitForm s)) = RM_none"
  "resetMode (snd (step sdk origin (AuthStateChange ''PASSWORD_RECOVERY'' session) s)) = RM_update"
  by (auto simp: handler_defs completed_defs split: SdkOutcome.splits option.splits)

lemma step_calls:
  "c \<in> set (fst (step sdk origin ev s)) \<Longrightarrow> spec_four_operations c \<or> c = SignOut"
  by (cases ev)
    (auto simp: handler_defs spec_four_operations_def
      split: SdkOutcome.splits option.splits if_splits)

lemma run_calls:
  "c \<in> set (fst (run origin evs s)) \<Longrightarrow> spec_four_operations c \<or> c = SignOut"
proof (induction evs arbitrary: s)
  case Nil
  then show ?case by simp
next
  case (Cons p evs)
  obtain sdk ev where p: "p = (sdk, ev)" by (cases p)
  show ?case
  proof (cases "enabled ev s")
    case True
    with Cons.prems p have
      "c \<in> set (fst (step sdk origin ev s))
       \<or> c \<in> set (fst (run origin evs (snd (step sdk origin ev s))))"
      by (simp add: Let_def)
    then show ?thesis using step_calls Cons.IH by blast
  next
    case False
    with Cons p show ?thesis by simp
  qed
qed

lemma step_mode:
  "mode s = ''signup'' \<or> mode s = ''signin'' \<Longrightarrow>
   mode (snd (step sdk origin ev s)) = ''signup'' \<or> mode (snd (step sdk origin ev s)) = ''signin''"
  using Mode_str_cases
  by (cases ev) (auto simp: handler_defs split: SdkOutcome.splits option.splits)

lemma reachable_mode:
  "reachable usp w u s \<Longrightarrow> mode s = ''signup'' \<or> mode s = ''signin''"
proof (induction rule: reachable.induct)
  case reachable_init
  show ?case by (simp add: initialState_def)
next
  case reachable_mounted
  show ?case by (simp add: initialState_def recoveryEffect_def)
next
  case (reachable_step s ev sdk origin)
  then show ?case using step_mode by blast
qed


lemma step_UpdateUser:
  "UpdateUser p \<in> set (fst (step sdk origin ev s)) \<Longrightarrow>
   ev = SubmitForm \<and> isPasswordUpdate s \<and> 6 \<le> length p \<and> p = newPassword s \<and> p = confirmPassword s"
  by (cases ev) (auto simp: handler_defs split: SdkOutcome.splits option.splits if_splits)

lemma step_email:
  "(\<forall>v. ev \<noteq> ChangeEmail v) \<Longrightarrow> email (snd (step sdk origin ev s)) = email s"
  by (cases ev) (auto simp: handler_defs split: SdkOutcome.splits option.splits)

lemma step_password:
  "password (snd (step sdk origin ev s)) = password s
   \<or> ev = ChangePassword (password (snd (step sdk origin ev s)))
   \<or> (password (snd (step sdk origin ev s)) = []
        \<and> (ev = ClickForgotPassword \<or> ev = ClickBackToSignIn))"
  by (cases ev) (auto simp: handler_defs split: SdkOutcome.splits option.splits)

lemma step_newPassword:
  "newPassword (snd (step sdk origin ev s)) = newPassword s
   \<or> ev = ChangeNewPassword (newPassword (snd (step sdk origin ev s)))
   \<or> (newPassword (snd (step sdk origin ev s)) = []
        \<and> (ev = ClickBackToSignIn
            \<or> (ev = ClickSignOut \<and> sign_out_answered sdk)
            \<or> (ev = SubmitForm \<and> resetMode s = RM_update \<and> password_update_completed sdk s)))"
  by (cases ev)
    (auto simp: handler_defs completed_defs split: SdkOutcome.splits option.splits)

lemma step_confirmPassword:
  "confirmPassword (snd (step sdk origin ev s)) = confirmPassword s
   \<or> ev = ChangeConfirmPassword (confirmPassword (snd (step sdk origin ev s)))
   \<or> (confirmPassword (snd (step sdk origin ev s)) = []
        \<and> (ev = ClickBackToSignIn
            \<or> (ev = ClickSignOut \<and> sign_out_answered sdk)
            \<or> (ev = SubmitForm \<and> resetMode s = RM_update \<and> password_update_completed sdk s)))"
  by (cases ev)
    (auto simp: handler_defs completed_defs split: SdkOutcome.splits option.splits)

lemma step_clears:
  "password (snd (step sdk origin ClickForgotPassword s)) = []"
  "password (snd (step sdk origin ClickBackToSignIn s)) = []"
  "newPassword (snd (step sdk origin ClickBackToSignIn s)) = []"
  "confirmPassword (snd (step sdk origin ClickBackToSignIn s)) = []"
  "sign_out_answered sdk \<Longrightarrow> newPassword (snd (step sdk origin ClickSignOut s)) = []"
  "sign_out_answered sdk \<Longrightarrow> confirmPassword (snd (step sdk origin ClickSignOut s)) = []"
  "resetMode s = RM_update \<Longrightarrow> password_update_completed sdk s \<Longrightarrow>
     newPassword (snd (step sdk origin SubmitForm s)) = []"
  "resetMode s = RM_update \<Longrightarrow> password_update_completed sdk s \<Longrightarrow>
     confirmPassword (snd (step sdk origin SubmitForm s)) = []"
  by (auto simp: handler_defs completed_defs split: SdkOutcome.splits option.splits)

lemma recoveryEffect_fields:
  "email (recoveryEffect usp w s) = email s"
  "password (recoveryEffect usp w s) = password s"
  "newPassword (recoveryEffect usp w s) = newPassword s"
  "confirmPassword (recoveryEffect usp w s) = confirmPassword s"
  by (simp_all add: recoveryEffect_def)

section \<open>Claims\<close>

text \<open>
  Claim C1, as the spec states it: every step of the reset mode follows one of the cycles
  none \<open>\<rightarrow>\<close> request \<open>\<rightarrow>\<close> none or none \<open>\<rightarrow>\<close> update \<open>\<rightarrow>\<close> none, and never goes from request
  to update. It fails: with the reset-request form open (an email address typed, then
  "Sign in" and "Forgot password?"), a \<open>PASSWORD_RECOVERY\<close> event from the SDK takes the
  reset mode from request to update.
\<close>

theorem resetMode_cycle_counterexample:
  "reachable parse_urlencoded (Some plain_location) None forgot_state
   \<and> enabled (AuthStateChange ''PASSWORD_RECOVERY'' (Some demo_session)) forgot_state
   \<and> resetMode forgot_state = RM_request
   \<and> resetMode (snd (step sdk_ok demo_origin
        (AuthStateChange ''PASSWORD_RECOVERY'' (Some demo_session)) forgot_state)) = RM_update
   \<and> \<not> spec_reset_step (resetMode forgot_state)
        (resetMode (snd (step sdk_ok demo_origin
           (AuthStateChange ''PASSWORD_RECOVERY'' (Some demo_session)) forgot_state)))"
proof -
  have "reachable parse_urlencoded (Some plain_location) None forgot_state"
    unfolding forgot_state_def by (rule reachable_run) (rule reachable_init)
  then show ?thesis
    by (simp add: forgot_state_eq authStateListener_def spec_reset_step_def)
qed

text \<open>
  Claim C1, amended. The reset mode starts at none, or at update on a recovery redirect,
  and the mount effect leaves that start as it is. A step of a rendered control or of an
  event either leaves the reset mode unchanged, or takes it
  \<^item> from none to request, by "Forgot password?";
  \<^item> to none, by "Back to sign in", by a sign-out whose call answered, by a reset request
    that the SDK answered without error, or by a password update that passed the form's
    checks and that the SDK answered without error;
  \<^item> to update, by a \<open>PASSWORD_RECOVERY\<close> event.
  No step takes it from update to request. Each of the named steps does make its move.
\<close>

theorem resetMode_transitions:
  "resetMode (initialState usp w u) = (if hasRecoveryParams usp w then RM_update else RM_none)
   \<and> recoveryEffect usp w (initialState usp w u) = initialState usp w u
   \<and> (enabled ev s \<longrightarrow>
        (resetMode (snd (step sdk origin ev s)) = resetMode s
         \<or> (resetMode s = RM_none \<and> resetMode (snd (step sdk origin ev s)) = RM_request
              \<and> ev = ClickForgotPassword)
         \<or> (resetMode (snd (step sdk origin ev s)) = RM_none
              \<and> (ev = ClickBackToSignIn
                  \<or> (ev = ClickSignOut \<and> sign_out_answered sdk)
                  \<or> (ev = SubmitForm \<and> resetMode s = RM_request
                       \<and> reset_request_completed sdk origin s)
                  \<or> (ev = SubmitForm \<and> resetMode s = RM_update
                       \<and> password_update_completed sdk s)))
         \<or> (resetMode (snd (step sdk origin ev s)) = RM_update
              \<and> (\<exists>session. ev = AuthStateChange ''PASSWORD_RECOVERY'' session)))
        \<and> \<not> (resetMode s = RM_update \<and> resetMode (snd (step sdk origin ev s)) = RM_request))
   \<and> resetMode (snd (step sdk origin ClickForgotPassword s)) = RM_request
   \<and> resetMode (snd (step sdk origin ClickBackToSignIn s)) = RM_none
   \<and> (sign_out_answered sdk \<longrightarrow> resetMode (snd (step sdk origin ClickSignOut s)) = RM_none)
   \<and> (resetMode s = RM_request \<longrightarrow> reset_request_completed sdk origin s \<longrightarrow>
        resetMode (snd (step sdk origin SubmitForm s)) = RM_none)
   \<and> (resetMode s = RM_update \<longrightarrow> password_update_completed sdk s \<longrightarrow>
        resetMode (snd (step sdk origin SubmitForm s)) = RM_none)
   \<and> resetMode (snd (step sdk origin (AuthStateChange ''PASSWORD_RECOVERY'' session) s))
       = RM_update"
proof -
  have i: "resetMode (initialState usp w u)
      = (if hasRecoveryParams usp w then RM_update else RM_none)"
    by (simp add: initialState_def)
  have n: "\<not> (resetMode s = RM_update \<and> resetMode (snd (step sdk origin ev s)) = RM_request)"
    if "enabled ev s"
    using step_resetMode [OF that, of sdk origin] by auto
  show ?thesis
    using i n recoveryEffect_initialState [of usp w u] step_resetMode [of ev s sdk origin]
      step_resetMode_of_event
    by blast
qed

theorem resetMode_transitions_witness:
  "enabled ClickForgotPassword signin_state
   \<and> resetMode signin_state = RM_none
   \<and> resetMode (snd (step sdk_ok demo_origin ClickForgotPassword signin_state)) = RM_request
   \<and> enabled SubmitForm forgot_state
   \<and> resetMode forgot_state = RM_request
   \<and> reset_request_completed sdk_ok demo_origin forgot_state
   \<and> resetMode (snd (step sdk_ok demo_origin SubmitForm forgot_state)) = RM_none
   \<and> resetMode (snd (step (sdk_failing ''Email rate limit exceeded'') demo_origin SubmitForm
        forgot_state)) = RM_request
   \<and> resetMode (update_state ''secret1'' ''secret1'') = RM_update
   \<and> password_update_completed sdk_ok (update_state ''secret1'' ''secret1'')
   \<and> resetMode (snd (step sdk_ok demo_origin SubmitForm (update_state ''secret1'' ''secret1'')))
       = RM_none
   \<and> enabled ClickSignOut forgot_signed_in_state
   \<and> sign_out_answered (sdk_failing ''Network request failed'')
   \<and> resetMode (snd (step (sdk_failing ''Network request failed'') demo_origin ClickSignOut
        forgot_signed_in_state)) = RM_none
   \<and> resetMode (initialState parse_urlencoded (Some recovery_query_location) None) = RM_update"
  using resetMode_transitions [of parse_urlencoded "Some recovery_query_location" None
      ClickForgotPassword signin_state sdk_ok demo_origin None]
    resetMode_transitions [of parse_urlencoded "Some recovery_query_location" None
      SubmitForm forgot_state sdk_ok demo_origin None]
    resetMode_transitions [of parse_urlencoded "Some recovery_query_location" None
      SubmitForm "update_state ''secret1'' ''secret1''" sdk_ok demo_origin None]
    resetMode_transitions [of parse_urlencoded "Some recovery_query_location" None
      ClickSignOut forgot_signed_in_state "sdk_failing ''Network request failed''"
      demo_origin None]
  by (simp add: state_eqs completed_defs eval_defs)

text \<open>
  Claim C2: when the SDK answers signUp, signInWithPassword, resetPasswordForEmail or
  updateUser with an error, the handler has made that one call only, and the new state is
  the old one with the status set to the error's message, as it is.
\<close>

theorem sdk_error_becomes_status:
  "(mode s = ''signup'' \<longrightarrow>
      sdk (SignUp (email s) (password s) (origin @ ''/welcome'')) = Resolved (Some e) \<longrightarrow>
      handleSubmit sdk origin s =
        ([SignUp (email s) (password s) (origin @ ''/welcome'')], s\<lparr> status := message e \<rparr>))
   \<and> (mode s \<noteq> ''signup'' \<longrightarrow>
      sdk (SignInWithPassword (email s) (password s)) = Resolved (Some e) \<longrightarrow>
      handleSubmit sdk origin s =
        ([SignInWithPassword (email s) (password s)], s\<lparr> status := message e \<rparr>))
   \<and> (sdk (ResetPasswordForEmail (email s) (origin @ ''/email-password?password-reset=true''))
        = Resolved (Some e) \<longrightarrow>
      handlePasswordResetRequest sdk origin s =
        ([ResetPasswordForEmail (email s) (origin @ ''/email-password?password-reset=true'')],
         s\<lparr> status := message e \<rparr>))
   \<and> (6 \<le> length (newPassword s) \<longrightarrow> newPassword s = confirmPassword s \<longrightarrow>
      sdk (UpdateUser (newPassword s)) = Resolved (Some e) \<longrightarrow>
      handlePasswordUpdate sdk s = ([UpdateUser (newPassword s)], s\<lparr> status := message e \<rparr>))"
  by (auto simp: handleSubmit_def handlePasswordResetRequest_def handlePasswordUpdate_def)

theorem sdk_error_becomes_status_witness:
  "mode typed_state = ''signup''
   \<and> handleSubmit (sdk_failing ''User already registered'') demo_origin typed_state
       = ([SignUp ''a@b.c'' ''secret1'' ''http://localhost:3000/welcome''],
          typed_state\<lparr> status := ''User already registered'' \<rparr>)
   \<and> mode signin_typed_state \<noteq> ''signup''
   \<and> handleSubmit (sdk_failing ''Invalid login credentials'') demo_origin signin_typed_state
       = ([SignInWithPassword ''a@b.c'' ''secret1''],
          signin_typed_state\<lparr> status := ''Invalid login credentials'' \<rparr>)
   \<and> handlePasswordResetRequest (sdk_failing ''Email rate limit exceeded'') demo_origin
        forgot_state
       = ([ResetPasswordForEmail ''a@b.c''
             ''http://localhost:3000/email-password?password-reset=true''],
          forgot_state\<lparr> status := ''Email rate limit exceeded'' \<rparr>)
   \<and> 6 \<le> length (newPassword (update_state ''secret1'' ''secret1''))
   \<and> handlePasswordUpdate (sdk_failing ''Auth session missing!'')
        (update_state ''secret1'' ''secret1'')
       = ([UpdateUser ''secret1''],
          (update_state ''secret1'' ''secret1'')\<lparr> status := ''Auth session missing!'' \<rparr>)"
  using sdk_error_becomes_status [of typed_state "sdk_failing ''User already registered''"
      demo_origin "\<lparr> message = ''User already registered'' \<rparr>"]
    sdk_error_becomes_status [of signin_typed_state "sdk_failing ''Invalid login credentials''"
      demo_origin "\<lparr> message = ''Invalid login credentials'' \<rparr>"]
    sdk_error_becomes_status [of forgot_state "sdk_failing ''Email rate limit exceeded''"
      demo_origin "\<lparr> message = ''Email rate limit exceeded'' \<rparr>"]
    sdk_error_becomes_status [of "update_state ''secret1'' ''secret1''"
      "sdk_failing ''Auth session missing!''" demo_origin
      "\<lparr> message = ''Auth session missing!'' \<rparr>"]
  by (simp add: state_eqs sdk_failing_def demo_origin_def)

text \<open>
  Claim C3, as the spec states it: every transition clears all four text fields. It fails:
  after an email address and a password are typed on a fresh page, the toggle to "Sign in"
  keeps both.
\<close>

theorem fields_cleared_counterexample:
  "reachable parse_urlencoded (Some plain_location) None typed_state
   \<and> email typed_state = ''a@b.c''
   \<and> enabled (ClickMode Signin) typed_state
   \<and> email (snd (step sdk_ok demo_origin (ClickMode Signin) typed_state)) = ''a@b.c''
   \<and> password (snd (step sdk_ok demo_origin (ClickMode Signin) typed_state)) = ''secret1''"
proof -
  have "reachable parse_urlencoded (Some plain_location) None typed_state"
    unfolding typed_state_def by (rule reachable_run) (rule reachable_init)
  then show ?thesis
    by (simp add: typed_state_eq formShown_def)
qed

text \<open>
  Claim C3, amended. A step changes a text field only by typing in it or by clearing it,
  and it clears only what its handler names:
  \<^item> no step clears the email: every step but typing in the email field keeps it;
  \<^item> the password is cleared by "Forgot password?" and by "Back to sign in", and by these
    alone;
  \<^item> the new password and the confirmation are cleared by "Back to sign in", by a sign-out
    whose call answered and by a completed password update, and by these alone.
  So the sign-up/sign-in toggle, a completed reset request, and entering update mode (a
  \<open>PASSWORD_RECOVERY\<close> or any other auth event, the mount effect) clear none of the four.
\<close>

theorem fields_cleared_by_transition:
  "((\<forall>v. ev \<noteq> ChangeEmail v) \<longrightarrow> email (snd (step sdk origin ev s)) = email s)
   \<and> (password (snd (step sdk origin ev s)) = password s
       \<or> ev = ChangePassword (password (snd (step sdk origin ev s)))
       \<or> (password (snd (step sdk origin ev s)) = []
            \<and> (ev = ClickForgotPassword \<or> ev = ClickBackToSignIn)))
   \<and> (newPassword (snd (step sdk origin ev s)) = newPassword s
       \<or> ev = ChangeNewPassword (newPassword (snd (step sdk origin ev s)))
       \<or> (newPassword (snd (step sdk origin ev s)) = []
            \<and> (ev = ClickBackToSignIn
                \<or> (ev = ClickSignOut \<and> sign_out_answered sdk)
                \<or> (ev = SubmitForm \<and> resetMode s = RM_update
                     \<and> password_update_completed sdk s))))
   \<and> (confirmPassword (snd (step sdk origin ev s)) = confirmPassword s
       \<or> ev = ChangeConfirmPassword (confirmPassword (snd (step sdk origin ev s)))
       \<or> (confirmPassword (snd (step sdk origin ev s)) = []
            \<and> (ev = ClickBackToSignIn
                \<or> (ev = ClickSignOut \<and> sign_out_answered sdk)
                \<or> (ev = SubmitForm \<and> resetMode s = RM_update
                     \<and> password_update_completed sdk s))))
   \<and> password (snd (step sdk origin ClickForgotPassword s)) = []
   \<and> password (snd (step sdk origin ClickBackToSignIn s)) = []
   \<and> newPassword (snd (step sdk origin ClickBackToSignIn s)) = []
   \<and> confirmPassword (snd (step sdk origin ClickBackToSignIn s)) = []
   \<and> (sign_out_answered sdk \<longrightarrow>
        newPassword (snd (step sdk origin ClickSignOut s)) = []
        \<and> confirmPassword (snd (step sdk origin ClickSignOut s)) = [])
   \<and> (resetMode s = RM_update \<longrightarrow> password_update_completed sdk s \<longrightarrow>
        newPassword (snd (step sdk origin SubmitForm s)) = []
        \<and> confirmPassword (snd (step sdk origin SubmitForm s)) = [])
   \<and> email (recoveryEffect usp w s) = email s
   \<and> password (recoveryEffect usp w s) = password s
   \<and> newPassword (recoveryEffect usp w s) = newPassword s
   \<and> confirmPassword (recoveryEffect usp w s) = confirmPassword s"
proof -
  have e: "(\<forall>v. ev \<noteq> ChangeEmail v) \<longrightarrow> email (snd (step sdk origin ev s)) = email s"
    using step_email [of ev sdk origin s] by blast
  have so: "sign_out_answered sdk \<longrightarrow>
        newPassword (snd (step sdk origin ClickSignOut s)) = []
        \<and> confirmPassword (snd (step sdk origin ClickSignOut s)) = []"
    using step_clears(5,6) [of sdk origin s] by blast
  have up: "resetMode s = RM_update \<longrightarrow> password_update_completed sdk s \<longrightarrow>
        newPassword (snd (step sdk origin SubmitForm s)) = []
        \<and> confirmPassword (snd (step sdk origin SubmitForm s)) = []"
    using step_clears(7,8) [of s sdk origin] by blast
  show ?thesis
    by (intro conjI)
      (rule e step_password step_newPassword step_confirmPassword step_clears so up
        recoveryEffect_fields)+
qed

theorem fields_cleared_by_transition_witness:
  "email (snd (step sdk_ok demo_origin (AuthStateChange ''PASSWORD_RECOVERY'' (Some demo_session))
       typed_state)) = ''a@b.c''
   \<and> password (snd (step sdk_ok demo_origin
        (AuthStateChange ''PASSWORD_RECOVERY'' (Some demo_session)) typed_state)) = ''secret1''
   \<and> enabled ClickForgotPassword signin_typed_state
   \<and> email (snd (step sdk_ok demo_origin ClickForgotPassword signin_typed_state)) = ''a@b.c''
   \<and> password (snd (step sdk_ok demo_origin ClickForgotPassword signin_typed_state)) = []
   \<and> enabled SubmitForm forgot_state
   \<and> reset_request_completed sdk_ok demo_origin forgot_state
   \<and> email (snd (step sdk_ok demo_origin SubmitForm forgot_state)) = ''a@b.c''
   \<and> resetMode (update_state ''secret1'' ''secret1'') = RM_update
   \<and> password_update_completed sdk_ok (update_state ''secret1'' ''secret1'')
   \<and> newPassword (snd (step sdk_ok demo_origin SubmitForm
        (update_state ''secret1'' ''secret1''))) = []
   \<and> confirmPassword (snd (step sdk_ok demo_origin SubmitForm
        (update_state ''secret1'' ''secret1''))) = []
   \<and> newPassword (snd (step (sdk_failing ''Auth session missing!'') demo_origin SubmitForm
        (update_state ''secret1'' ''secret1''))) = ''secret1''"
  using fields_cleared_by_transition [of "AuthStateChange ''PASSWORD_RECOVERY'' (Some demo_session)"
      sdk_ok demo_origin typed_state parse_urlencoded "Some plain_location"]
    fields_cleared_by_transition [of ClickForgotPassword sdk_ok demo_origin signin_typed_state
      parse_urlencoded "Some plain_location"]
    fields_cleared_by_transition [of SubmitForm sdk_ok demo_origin forgot_state
      parse_urlencoded "Some plain_location"]
    fields_cleared_by_transition [of SubmitForm sdk_ok demo_origin
      "update_state ''secret1'' ''secret1''" parse_urlencoded "Some plain_location"]
  by (simp add: state_eqs completed_defs eval_defs)

text \<open>
  Claim C4, as the spec states it: the only SDK operations are signUp, signInWithPassword,
  resetPasswordForEmail and updateUser. It fails: the "Sign out" button of a signed-in page
  calls the SDK's signOut.
\<close>

theorem four_operations_counterexample:
  "enabled ClickSignOut signed_in_state
   \<and> fst (step sdk_ok demo_origin ClickSignOut signed_in_state) = [SignOut]
   \<and> \<not> spec_four_operations SignOut"
  by (simp add: signed_in_state_eq handleSignOut_def sdk_ok_def spec_four_operations_def)

text \<open>
  Claim C4, amended: the calls the component makes while handling its events are signUp,
  signInWithPassword, resetPasswordForEmail, updateUser and signOut, and no other; over the
  whole life of the component there is, next to them, the one subscription to auth state
  changes made at mount.
\<close>

theorem five_operations_and_one_subscription:
  "(\<forall>c \<in> set (fst (run origin evs s)). spec_four_operations c \<or> c = SignOut)
   \<and> filter (\<lambda>c. c = OnAuthStateChange) (fst (lifetime usp w u listener origin evs))
       = [OnAuthStateChange]"
proof -
  have a: "\<forall>c \<in> set (fst (run origin evs s)). spec_four_operations c \<or> c = SignOut" for s
    using run_calls by blast
  have "filter (\<lambda>c. c = OnAuthStateChange) (fst (run origin evs s)) = []" for s
    using a [of s] by (auto simp: filter_empty_conv spec_four_operations_def)
  then have b: "filter (\<lambda>c. c = OnAuthStateChange) (fst (lifetime usp w u listener origin evs))
       = [OnAuthStateChange]"
    by (simp add: lifetime_def subscribeEffect_def Let_def split: option.splits)
  from a b show ?thesis by blast
qed

theorem five_operations_and_one_subscription_witness:
  "fst (lifetime parse_urlencoded (Some plain_location) (Some demo_user)
          (Some \<lparr> subscription = 7 \<rparr>) demo_origin
          [(sdk_ok, ClickSignOut), (sdk_ok, ChangeEmail ''a@b.c''),
           (sdk_ok, ChangePassword ''secret1''),
           (sdk_failing ''User already registered'', SubmitForm)])
     = [OnAuthStateChange, SignOut,
        SignUp ''a@b.c'' ''secret1'' ''http://localhost:3000/welcome'', Unsubscribe 7]
   \<and> spec_four_operations (SignUp ''a@b.c'' ''secret1'' ''http://localhost:3000/welcome'')"
  using five_operations_and_one_subscription [of demo_origin
      "[(sdk_ok, ClickSignOut), (sdk_ok, ChangeEmail ''a@b.c''),
        (sdk_ok, ChangePassword ''secret1''),
        (sdk_failing ''User already registered'', SubmitForm)]"
      signed_in_state parse_urlencoded "Some plain_location" "Some demo_user"
      "Some \<lparr> subscription = 7 \<rparr>"]
  by (simp add: lifetime_def subscribeEffect_def recoveryEffect_def eval_defs
      spec_four_operations_def)

text \<open>
  Claim C5: the component starts with reset mode update and the status "Enter a new
  password to finish resetting your account." exactly when the page URL indicates a
  recovery redirect (hash parameter \<open>type\<close> equal to \<open>recovery\<close>, or query parameter
  \<open>password-reset\<close> equal to \<open>true\<close>), and with reset mode none and an empty status
  exactly when it does not. This holds for whatever the browser's parser yields.
\<close>

theorem initialState_recovery:
  "((resetMode (initialState usp w u) = RM_update
      \<and> status (initialState usp w u)
          = ''Enter a new password to finish resetting your account.'')
     = spec_recovery_redirect usp w)
   \<and> ((resetMode (initialState usp w u) = RM_none \<and> status (initialState usp w u) = [])
     = (\<not> spec_recovery_redirect usp w))"
proof -
  have "hasRecoveryParams usp w = spec_recovery_redirect usp w"
    by (auto simp: hasRecoveryParams_def spec_recovery_redirect_def Let_def split: option.splits)
  then show ?thesis
    by (simp add: initialState_def recovery_prompt_def)
qed

theorem initialState_recovery_witness:
  "spec_recovery_redirect parse_urlencoded (Some recovery_hash_location)
   \<and> resetMode (initialState parse_urlencoded (Some recovery_hash_location) None) = RM_update
   \<and> spec_recovery_redirect parse_urlencoded (Some recovery_query_location)
   \<and> status (initialState parse_urlencoded (Some recovery_query_location) None)
       = ''Enter a new password to finish resetting your account.''
   \<and> \<not> spec_recovery_redirect parse_urlencoded (Some plain_location)
   \<and> resetMode (initialState parse_urlencoded (Some plain_location) None) = RM_none
   \<and> status (initialState parse_urlencoded None None) = []"
  using initialState_recovery [of parse_urlencoded "Some recovery_hash_location" None]
    initialState_recovery [of parse_urlencoded "Some recovery_query_location" None]
    initialState_recovery [of parse_urlencoded "Some plain_location" None]
    initialState_recovery [of parse_urlencoded None None]
  by (simp add: demo_defs parse_defs)



text \<open>
  Claim C7: in every reachable state the stored form mode is \<open>signup\<close> or \<open>signin\<close> and the
  reset mode is none, request or update, with at most one of the request and update forms
  active and neither of them exactly when the reset mode is none; the initial state has
  both memberships and every step keeps them.
\<close>

theorem mode_resetMode_invariant:
  "(reachable usp w u s \<longrightarrow>
      spec_modes_valid s
      \<and> \<not> (isResetRequest s \<and> isPasswordUpdate s)
      \<and> ((resetMode s = RM_none) = (\<not> isResetRequest s \<and> \<not> isPasswordUpdate s)))
   \<and> spec_modes_valid (initialState usp w u)
   \<and> (spec_modes_valid s \<longrightarrow> spec_modes_valid (snd (step sdk origin ev s)))"
proof -
  have rm: "resetMode t = RM_none \<or> resetMode t = RM_request \<or> resetMode t = RM_update"
    for t :: UiState
    by (cases "resetMode t") simp_all
  have "spec_modes_valid s" if "reachable usp w u s"
    using reachable_mode [OF that] rm [of s] by (simp add: spec_modes_valid_def)
  moreover have "\<not> (isResetRequest s \<and> isPasswordUpdate s)"
    by (simp add: isResetRequest_def isPasswordUpdate_def)
  moreover have "(resetMode s = RM_none) = (\<not> isResetRequest s \<and> \<not> isPasswordUpdate s)"
    using rm [of s] by (auto simp: isResetRequest_def isPasswordUpdate_def)
  moreover have "spec_modes_valid (initialState usp w u)"
    by (simp add: spec_modes_valid_def initialState_def)
  moreover have "spec_modes_valid (snd (step sdk origin ev s))" if "spec_modes_valid s"
    using that step_mode [of s sdk origin ev] rm [of "snd (step sdk origin ev s)"]
    by (simp add: spec_modes_valid_def)
  ultimately show ?thesis by blast
qed

theorem mode_resetMode_invariant_witness:
  "reachable parse_urlencoded (Some plain_location) None forgot_state
   \<and> spec_modes_valid forgot_state
   \<and> mode forgot_state = ''signin''
   \<and> isResetRequest forgot_state
   \<and> \<not> isPasswordUpdate forgot_state
   \<and> spec_modes_valid (snd (step sdk_ok demo_origin ClickBackToSignIn forgot_state))"
proof -
  have r: "reachable parse_urlencoded (Some plain_location) None forgot_state"
    unfolding forgot_state_def by (rule reachable_run) (rule reachable_init)
  show ?thesis
    using r mode_resetMode_invariant [of parse_urlencoded "Some plain_location" None
        forgot_state sdk_ok demo_origin ClickBackToSignIn]
    by (simp add: forgot_state_eq isResetRequest_def isPasswordUpdate_def)
qed

text \<open>
  Claim C8: over the life of the component, from mount to teardown, the listener that the
  subscription at mount returned is unsubscribed exactly once, as the last call, by the
  effect's cleanup; no event handler unsubscribes or subscribes, so the calls in between
  are those of the handlers alone.
\<close>

theorem listener_unsubscribed_once:
  "fst (lifetime usp w u (Some l) origin evs)
     = OnAuthStateChange # fst (run origin evs (initialState usp w u))
         @ [Unsubscribe (subscription l)]
   \<and> filter isUnsubscribe (fst (lifetime usp w u (Some l) origin evs))
       = [Unsubscribe (subscription l)]
   \<and> filter isUnsubscribe (fst (run origin evs s)) = []"
proof -
  have n: "filter isUnsubscribe (fst (run origin evs t)) = []" for t
  proof -
    have "\<not> isUnsubscribe c" if "c \<in> set (fst (run origin evs t))" for c
      using run_calls [OF that]
      by (auto simp: spec_four_operations_def isUnsubscribe_def split: SdkCall.splits)
    then show ?thesis by (simp add: filter_empty_conv)
  qed
  have t: "fst (lifetime usp w u (Some l) origin evs)
     = OnAuthStateChange # fst (run origin evs (initialState usp w u))
         @ [Unsubscribe (subscription l)]"
    by (simp add: lifetime_def subscribeEffect_def recoveryEffect_initialState Let_def)
  have "filter isUnsubscribe (fst (lifetime usp w u (Some l) origin evs))
       = [Unsubscribe (subscription l)]"
    unfolding t using n [of "initialState usp w u"] by (simp add: isUnsubscribe_def)
  with t n [of s] show ?thesis by blast
qed

theorem listener_unsubscribed_once_witness:
  "fst (lifetime parse_urlencoded (Some plain_location) None (Some \<lparr> subscription = 7 \<rparr>)
          demo_origin
          [(sdk_ok, ClickMode Signin), (sdk_ok, ChangeEmail ''a@b.c''),
           (sdk_ok, ChangePassword ''secret1''), (sdk_ok, SubmitForm)])
     = [OnAuthStateChange, SignInWithPassword ''a@b.c'' ''secret1'', Unsubscribe 7]
   \<and> filter isUnsubscribe
        (fst (lifetime parse_urlencoded (Some plain_location) None
           (Some \<lparr> subscription = 7 \<rparr>) demo_origin
           [(sdk_ok, ClickMode Signin), (sdk_ok, ChangeEmail ''a@b.c''),
            (sdk_ok, ChangePassword ''secret1''), (sdk_ok, SubmitForm)]))
       = [Unsubscribe 7]"
  using listener_unsubscribed_once [of parse_urlencoded "Some plain_location" None
      "\<lparr> subscription = 7 \<rparr>" demo_origin
      "[(sdk_ok, ClickMode Signin), (sdk_ok, ChangeEmail ''a@b.c''),
        (sdk_ok, ChangePassword ''secret1''), (sdk_ok, SubmitForm)]"
      "initialState parse_urlencoded (Some plain_location) None"]
  by (simp add: eval_defs lifetime_def subscribeEffect_def recoveryEffect_def isUnsubscribe_def)

text \<open>
  Claim C9: \<open>handlePasswordUpdate\<close> makes no SDK call when the new password is shorter than
  6 characters or differs from the confirmation: it returns the old state with only the
  status changed, to "New password must be at least 6 characters." in the first case and
  to "Passwords do not match." in the second. When it does call, the call is the single
  \<open>updateUser\<close> with a new password of at least 6 characters that equals the confirmation;
  and no control of the component issues \<open>updateUser\<close> otherwise.
\<close>

theorem password_update_validation:
  "(length (newPassword s) < 6 \<longrightarrow>
      handlePasswordUpdate sdk s
        = ([], s\<lparr> status := ''New password must be at least 6 characters.'' \<rparr>))
   \<and> (6 \<le> length (newPassword s) \<longrightarrow> newPassword s \<noteq> confirmPassword s \<longrightarrow>
      handlePasswordUpdate sdk s = ([], s\<lparr> status := ''Passwords do not match.'' \<rparr>))
   \<and> (fst (handlePasswordUpdate sdk s) \<noteq> [] \<longrightarrow>
      6 \<le> length (newPassword s) \<and> newPassword s = confirmPassword s
      \<and> fst (handlePasswordUpdate sdk s) = [UpdateUser (newPassword s)])
   \<and> (UpdateUser p \<in> set (fst (step sdk origin ev s)) \<longrightarrow>
      6 \<le> length p \<and> p = newPassword s \<and> p = confirmPassword s)"
proof -
  have "UpdateUser p \<in> set (fst (step sdk origin ev s)) \<longrightarrow>
      6 \<le> length p \<and> p = newPassword s \<and> p = confirmPassword s"
    using step_UpdateUser [of p sdk origin ev s] by blast
  moreover have "length (newPassword s) < 6 \<longrightarrow>
      handlePasswordUpdate sdk s
        = ([], s\<lparr> status := ''New password must be at least 6 characters.'' \<rparr>)"
    by (simp add: handlePasswordUpdate_def)
  moreover have "6 \<le> length (newPassword s) \<longrightarrow> newPassword s \<noteq> confirmPassword s \<longrightarrow>
      handlePasswordUpdate sdk s = ([], s\<lparr> status := ''Passwords do not match.'' \<rparr>)"
    by (auto simp: handlePasswordUpdate_def)
  moreover have "fst (handlePasswordUpdate sdk s) \<noteq> [] \<longrightarrow>
      6 \<le> length (newPassword s) \<and> newPassword s = confirmPassword s
      \<and> fst (handlePasswordUpdate sdk s) = [UpdateUser (newPassword s)]"
    by (auto simp: handlePasswordUpdate_def Let_def split: SdkOutcome.splits option.splits)
  ultimately show ?thesis by blast
qed

theorem password_update_validation_witness:
  "length (newPassword (update_state ''abc'' ''abc'')) < 6
   \<and> handlePasswordUpdate sdk_ok (update_state ''abc'' ''abc'')
       = ([], (update_state ''abc'' ''abc'')
              \<lparr> status := ''New password must be at least 6 characters.'' \<rparr>)
   \<and> 6 \<le> length (newPassword (update_state ''secret1'' ''secret2''))
   \<and> newPassword (update_state ''secret1'' ''secret2'')
       \<noteq> confirmPassword (update_state ''secret1'' ''secret2'')
   \<and> handlePasswordUpdate sdk_ok (update_state ''secret1'' ''secret2'')
       = ([], (update_state ''secret1'' ''secret2'') \<lparr> status := ''Passwords do not match.'' \<rparr>)
   \<and> enabled SubmitForm (update_state ''secret1'' ''secret1'')
   \<and> fst (step sdk_ok demo_origin SubmitForm (update_state ''secret1'' ''secret1''))
       = [UpdateUser ''secret1'']"
  using password_update_validation [of "update_state ''abc'' ''abc''" sdk_ok "''abc''"
      demo_origin SubmitForm]
    password_update_validation [of "update_state ''secret1'' ''secret2''" sdk_ok "''secret1''"
      demo_origin SubmitForm]
    password_update_validation [of "update_state ''secret1'' ''secret1''" sdk_ok "''secret1''"
      demo_origin SubmitForm]
  by (simp add: update_state_eq sdk_ok_def formShown_def handler_defs)

text \<open>
  Claim C10, as the spec states it: for every outcome of the signOut call,
  \<open>handleSignOut\<close> sets the current user to null and the status to "Signed out
  successfully". It fails when the promise of the call rejects: the \<open>await\<close> throws, no
  setter runs, and the signed-in page keeps its user and its empty status.
\<close>

theorem signOut_every_outcome_counterexample:
  "enabled ClickSignOut signed_in_state
   \<and> fst (handleSignOut sdk_rejecting signed_in_state) = [SignOut]
   \<and> currentUser (snd (handleSignOut sdk_rejecting signed_in_state)) = Some demo_user
   \<and> status (snd (handleSignOut sdk_rejecting signed_in_state)) = []
   \<and> status (snd (handleSignOut sdk_rejecting signed_in_state)) \<noteq> ''Signed out successfully''"
  by (simp add: signed_in_state_eq handleSignOut_def sdk_rejecting_def)

text \<open>
  Claim C10, amended: \<open>handleSignOut\<close> calls the SDK's signOut once and ignores the result
  the call resolves with: for every such result, one that carries an error included, the
  new state is the old one with the current user none, the status "Signed out
  successfully", the reset mode none, and the new password and the confirmation empty.
  When the promise of the call rejects, the state stays as it was.
\<close>

theorem signOut_ignores_result:
  "fst (handleSignOut sdk s) = [SignOut]
   \<and> (sdk SignOut = Resolved result \<longrightarrow>
        snd (handleSignOut sdk s)
          = s\<lparr> currentUser := None, status := ''Signed out successfully'',
               resetMode := RM_none, newPassword := [], confirmPassword := [] \<rparr>)
   \<and> (sdk SignOut = Rejected \<longrightarrow> snd (handleSignOut sdk s) = s)"
  by (simp add: handleSignOut_def split: SdkOutcome.splits)

theorem signOut_ignores_result_witness:
  "sdk_failing ''Network request failed'' SignOut
     = Resolved (Some \<lparr> message = ''Network request failed'' \<rparr>)
   \<and> handleSignOut (sdk_failing ''Network request failed'') forgot_signed_in_state
       = ([SignOut],
          forgot_signed_in_state
            \<lparr> currentUser := None, status := ''Signed out successfully'',
              resetMode := RM_none \<rparr>)
   \<and> sdk_ok SignOut = Resolved None
   \<and> snd (handleSignOut sdk_ok signed_in_state)
       = signed_in_state\<lparr> currentUser := None, status := ''Signed out successfully'' \<rparr>
   \<and> sdk_rejecting SignOut = Rejected
   \<and> snd (handleSignOut sdk_rejecting signed_in_state) = signed_in_state"
  using signOut_ignores_result [of "sdk_failing ''Network request failed''"
      forgot_signed_in_state "Some \<lparr> message = ''Network request failed'' \<rparr>"]
    signOut_ignores_result [of sdk_ok signed_in_state None]
    signOut_ignores_result [of sdk_rejecting signed_in_state None]
  by (simp add: state_eqs sdk_failing_def sdk_ok_def sdk_rejecting_def prod_eq_iff)

end
